theory Spec2Isabelle
  imports Complex_Main
begin

section \<open>Cell values, sheet records and data frames\<close>

text \<open>
  A cell of the sheet, as \<^verbatim>\<open>get_all_records\<close> hands it over, is an integer, a float
  or a text (gspread reads a numeric text as a number); a data frame also holds missing
  values, timestamps and the null timestamp. A float is an exact rational here: the
  rounding of floating-point arithmetic is not part of the model, but the conversion of
  an integer to \<^verbatim>\<open>float64\<close> is. Timestamps count nanoseconds since the epoch.
\<close>

datatype cell = Integer int | Float rat | Str string | NaN | Ts int | NaT

text \<open>An instance of Python's \<^verbatim>\<open>Exception\<close>, with the text \<^verbatim>\<open>str(e)\<close>.\<close>

datatype exn = Exception string

text \<open>One record of the sheet: a Python dict, in insertion order.\<close>

type_synonym row = "(string \<times> cell) list"

text \<open>
  A data frame: the length of its index and its columns in order, each a name and its
  values from the first row to the last.
\<close>

record dataframe =
  nrows :: nat
  cols :: "(string \<times> cell list) list"

text \<open>\<^verbatim>\<open>pd.DataFrame()\<close>: no rows, no columns.\<close>

definition empty_frame :: dataframe where
  "empty_frame = \<lparr>nrows = 0, cols = []\<rparr>"

text \<open>The keys of a list of dicts, each once, in the order of first appearance.\<close>

definition keys_in_order :: "row list \<Rightarrow> string list" where
  "keys_in_order rs = rev (remdups (rev (concat (map (map fst) rs))))"

definition cell_of :: "row \<Rightarrow> string \<Rightarrow> cell" where
  "cell_of r k = (case map_of r k of None \<Rightarrow> NaN | Some v \<Rightarrow> v)"

text \<open>
  The conversion of a Python integer to \<^verbatim>\<open>float64\<close>: the nearest number with 53
  significant bits, ties to the even one. Integers of a sheet are taken to be within the
  range of \<^verbatim>\<open>float64\<close>.
\<close>

fun bit_length :: "nat \<Rightarrow> nat" where
  "bit_length 0 = 0"
| "bit_length (Suc n) = Suc (bit_length (Suc n div 2))"

definition float64_of_int :: "int \<Rightarrow> rat" where
  "float64_of_int n =
     (let a = nat \<bar>n\<bar>;
          m = 2 ^ (bit_length a - 53);
          q = a div m;
          r = a mod m;
          q' = (if m < 2 * r \<or> (2 * r = m \<and> odd q) then q + 1 else q)
      in of_int (sgn n * int (q' * m)))"

definition INT64_MIN :: int where
  "INT64_MIN = - 9223372036854775808"

definition INT64_MAX :: int where
  "INT64_MAX = 9223372036854775807"

definition UINT64_MAX :: int where
  "UINT64_MAX = 18446744073709551615"

text \<open>
  The dtype inference of \<^verbatim>\<open>pd.DataFrame\<close> on the values of one column. The column
  stays a column of Python objects, each value as it is, when it holds a text or a
  timestamp, an integer outside the ranges of \<^verbatim>\<open>int64\<close> and \<^verbatim>\<open>uint64\<close>, or
  both a negative integer and one above \<^verbatim>\<open>int64\<close>. Otherwise a column that holds
  a float or a missing value becomes \<^verbatim>\<open>float64\<close> and its integers are converted; a
  column of integers alone keeps them.
\<close>

fun is_python_object :: "cell \<Rightarrow> bool" where
  "is_python_object (Str s) = True"
| "is_python_object (Ts t) = True"
| "is_python_object NaT = True"
| "is_python_object c = False"

fun outside_64_bits :: "cell \<Rightarrow> bool" where
  "outside_64_bits (Integer n) = (n < INT64_MIN \<or> UINT64_MAX < n)"
| "outside_64_bits c = False"

fun above_int64 :: "cell \<Rightarrow> bool" where
  "above_int64 (Integer n) = (INT64_MAX < n)"
| "above_int64 c = False"

fun negative_int :: "cell \<Rightarrow> bool" where
  "negative_int (Integer n) = (n < 0)"
| "negative_int c = False"

fun is_float :: "cell \<Rightarrow> bool" where
  "is_float (Float q) = True"
| "is_float NaN = True"
| "is_float c = False"

definition stays_object :: "cell list \<Rightarrow> bool" where
  "stays_object xs =
     (list_ex is_python_object xs
      \<or> list_ex outside_64_bits xs
      \<or> (list_ex above_int64 xs \<and> list_ex negative_int xs))"

definition as_float64 :: "cell \<Rightarrow> cell" where
  "as_float64 c = (case c of Integer n \<Rightarrow> Float (float64_of_int n) | _ \<Rightarrow> c)"

definition infer_column :: "cell list \<Rightarrow> cell list" where
  "infer_column xs =
     (if stays_object xs then xs
      else if list_ex is_float xs
      then map as_float64 xs
      else xs)"

text \<open>
  \<^verbatim>\<open>pd.DataFrame(records)\<close>: one row for each record, one column for each key; a
  record without the key has a missing value there; each column gets its dtype.
\<close>

definition DataFrame :: "row list \<Rightarrow> dataframe" where
  "DataFrame rs =
     \<lparr>nrows = length rs,
      cols = map (\<lambda>k. (k, infer_column (map (\<lambda>r. cell_of r k) rs))) (keys_in_order rs)\<rparr>"

text \<open>\<^verbatim>\<open>df.columns\<close>, \<^verbatim>\<open>len(df)\<close>, \<^verbatim>\<open>df.empty\<close> and \<^verbatim>\<open>df[k]\<close>.\<close>

definition columns :: "dataframe \<Rightarrow> string list" where
  "columns df = map fst (cols df)"

definition len :: "dataframe \<Rightarrow> nat" where
  "len df = nrows df"

definition df_empty :: "dataframe \<Rightarrow> bool" where
  "df_empty df = (nrows df = 0 \<or> cols df = [])"

definition getitem :: "dataframe \<Rightarrow> string \<Rightarrow> exn + cell list" where
  "getitem df k =
     (case map_of (cols df) k of
        None \<Rightarrow> Inl (Exception k)
      | Some xs \<Rightarrow> Inr xs)"

text \<open>
  \<^verbatim>\<open>df[k] = vs\<close>: an existing column is replaced where it stands, a new one is added
  after the last. Both assignments of the loader give as many values as the frame has
  rows (lemma \<open>load_try_lengths\<close> below).
\<close>

definition setitem :: "dataframe \<Rightarrow> string \<Rightarrow> cell list \<Rightarrow> dataframe" where
  "setitem df k vs =
     (if k \<in> set (columns df)
      then df\<lparr>cols := map (\<lambda>(n, xs). if n = k then (n, vs) else (n, xs)) (cols df)\<rparr>
      else df\<lparr>cols := cols df @ [(k, vs)]\<rparr>)"

section \<open>Timestamps\<close>

text \<open>
  \<^verbatim>\<open>pd.to_datetime\<close> with its default \<^verbatim>\<open>errors='raise'\<close>. A missing value, an
  empty text, the texts pandas reads as null and the number \<open>- 2 ^ 63\<close>, which is the
  null timestamp's own representation, become the null timestamp \<open>NaT\<close>; a timestamp
  stays; any other value goes to the parser of the library, which is a parameter here:
  it sees the whole column (pandas infers one format for it) and the cell, and gives
  the instant, or the null timestamp (\<open>None\<close>), or raises.
\<close>

type_synonym parser = "cell list \<Rightarrow> cell \<Rightarrow> exn + int option"

definition nat_strings :: "string list" where
  "nat_strings = [''NaT'', ''nat'', ''NAT'', ''nan'', ''NaN'', ''NAN'']"

fun is_null :: "cell \<Rightarrow> bool" where
  "is_null NaN = True"
| "is_null NaT = True"
| "is_null (Str s) = (s = [] \<or> s \<in> set nat_strings)"
| "is_null (Integer n) = (n = - 9223372036854775808)"
| "is_null (Float q) = (q = - 9223372036854775808)"
| "is_null (Ts t) = False"

definition to_datetime_cell :: "parser \<Rightarrow> cell list \<Rightarrow> cell \<Rightarrow> exn + cell" where
  "to_datetime_cell p xs c =
     (if is_null c then Inr NaT
      else case c of
        Ts t \<Rightarrow> Inr (Ts t)
      | _ \<Rightarrow>
          (case p xs c of
             Inl e \<Rightarrow> Inl e
           | Inr None \<Rightarrow> Inr NaT
           | Inr (Some t) \<Rightarrow> Inr (Ts t)))"

text \<open>The cells of a column in order; the first failure is the failure of the whole.\<close>

fun sequence :: "(exn + 'a) list \<Rightarrow> exn + 'a list" where
  "sequence [] = Inr []"
| "sequence (x # xs) =
     (case x of
        Inl e \<Rightarrow> Inl e
      | Inr v \<Rightarrow> (case sequence xs of Inl e \<Rightarrow> Inl e | Inr vs \<Rightarrow> Inr (v # vs)))"

definition to_datetime :: "parser \<Rightarrow> cell list \<Rightarrow> exn + cell list" where
  "to_datetime p xs = sequence (map (to_datetime_cell p xs) xs)"

text \<open>\<^verbatim>\<open>timedelta(days=d)\<close> and the frequency \<^verbatim>\<open>'10S'\<close>, in nanoseconds.\<close>

definition timedelta_days :: "int \<Rightarrow> int" where
  "timedelta_days d = d * 86400 * 1000000000"

definition freq_10S :: int where
  "freq_10S = 10 * 1000000000"

text \<open>\<^verbatim>\<open>pd.date_range(start=s, periods=n, freq=f)\<close>.\<close>

definition date_range :: "int \<Rightarrow> nat \<Rightarrow> int \<Rightarrow> cell list" where
  "date_range s n f = map (\<lambda>i. Ts (s + int i * f)) [0..<n]"

section \<open>The loader\<close>

text \<open>
  What lies outside the program: the credential file, the remote sheet, the clock and
  the library's timestamp parser. Each remote call gives its result or raises.
\<close>

record env =
  from_service_account_file :: "string \<Rightarrow> string list \<Rightarrow> exn + unit"
  authorize :: "unit \<Rightarrow> exn + unit"
  open_by_key_sheet1 :: "unit \<Rightarrow> string \<Rightarrow> exn + unit"
  get_all_records :: "unit \<Rightarrow> exn + row list"
  now :: int
  parse :: parser

definition SPREADSHEET_ID :: string where
  "SPREADSHEET_ID = ''1k78q-NphTejY9YaNQF1Mr2wxa6jsjTidXyJUnPFss3o''"

definition SCOPES :: "string list" where
  "SCOPES = [''https://www.googleapis.com/auth/spreadsheets'',
             ''https://www.googleapis.com/auth/drive'']"

definition and_then :: "exn + 'a \<Rightarrow> ('a \<Rightarrow> exn + 'b) \<Rightarrow> exn + 'b" where
  "and_then r f = (case r of Inl e \<Rightarrow> Inl e | Inr v \<Rightarrow> f v)"

text \<open>Lines 44 to 54: the column \<^verbatim>\<open>FechaHora\<close> of the frame.\<close>

definition resolve_timestamp :: "env \<Rightarrow> dataframe \<Rightarrow> exn + dataframe" where
  "resolve_timestamp w df =
     (if ''FechaHora'' \<in> set (columns df) then
        and_then (getitem df ''FechaHora'') (\<lambda>xs.
        and_then (to_datetime (parse w) xs) (\<lambda>ts.
        Inr (setitem df ''FechaHora'' ts)))
      else if ''Timestamp'' \<in> set (columns df) then
        and_then (getitem df ''Timestamp'') (\<lambda>xs.
        and_then (to_datetime (parse w) xs) (\<lambda>ts.
        Inr (setitem df ''FechaHora'' ts)))
      else
        Inr (setitem df ''FechaHora''
               (date_range (now w - timedelta_days 1) (len df) freq_10S)))"

text \<open>The body of the \<^verbatim>\<open>try\<close> of \<^verbatim>\<open>load_data\<close>.\<close>

definition load_try :: "env \<Rightarrow> exn + dataframe" where
  "load_try w =
     and_then (from_service_account_file w ''credentials.json'' SCOPES) (\<lambda>creds.
     and_then (authorize w creds) (\<lambda>client.
     and_then (open_by_key_sheet1 w client SPREADSHEET_ID) (\<lambda>sheet.
     and_then (get_all_records w sheet) (\<lambda>records.
     resolve_timestamp w (DataFrame records)))))"

text \<open>
  A text built by an f-string: literal pieces, an integer, and a number printed with a
  fixed count of decimals (\<^verbatim>\<open>{x:.2f}\<close>), which prints \<^verbatim>\<open>nan\<close> for a missing value.
\<close>

datatype piece = Lit string | Dec nat | Fixed nat rat | Nan

type_synonym fstring = "piece list"

text \<open>
  What the page shows. The texts are those of the source without their pictographs and
  accents.
\<close>

datatype element =
    StError fstring
  | StSuccess fstring
  | StMetric string fstring
  | StWarning string
  | StSubheader string
  | StWrite string
  | StWriteDtypes "(string \<times> string) list"
  | StDataframe dataframe
  | StMultiselect string "string list" "string list"
  | StPlotlyChart "(cell list \<times> cell list \<times> string \<times> string) list"
  | StExpander string bool "element list"
  | SidebarMarkdown string
  | SidebarWrite fstring

text \<open>
  \<^verbatim>\<open>load_data\<close>: the frame it returns and what it puts on the page. The handler takes
  every \<^verbatim>\<open>Exception\<close>.
\<close>

definition load_data :: "env \<Rightarrow> dataframe \<times> element list" where
  "load_data w =
     (case load_try w of
        Inr df \<Rightarrow> (df, [])
      | Inl (Exception m) \<Rightarrow>
          (empty_frame, [StError [Lit ''Error cargando datos: '', Lit m]]))"

section \<open>The page\<close>

text \<open>
  The script renders one element after the other; an exception that nothing catches
  stops it, and what was rendered before stays. A rendering is the elements shown and
  the exception that stopped the script, if one did.
\<close>

type_synonym render = "element list \<times> exn option"

definition shown :: "element list \<Rightarrow> render" where
  "shown es = (es, None)"

definition of_result :: "exn + element list \<Rightarrow> render" where
  "of_result r = (case r of Inl e \<Rightarrow> ([], Some e) | Inr es \<Rightarrow> (es, None))"

definition then_render :: "render \<Rightarrow> render \<Rightarrow> render" where
  "then_render a b =
     (case snd a of
        Some e \<Rightarrow> a
      | None \<Rightarrow> (fst a @ fst b, snd b))"

fun in_order :: "render list \<Rightarrow> render" where
  "in_order [] = ([], None)"
| "in_order (r # rs) = then_render r (in_order rs)"

subsection \<open>Series operations\<close>


fun is_number :: "cell \<Rightarrow> bool" where
  "is_number (Integer n) = True"
| "is_number (Float q) = True"
| "is_number NaN = True"
| "is_number c = False"

fun numbers :: "cell list \<Rightarrow> rat list" where
  "numbers [] = []"
| "numbers (Integer n # cs) = of_int n # numbers cs"
| "numbers (Float q # cs) = q # numbers cs"
| "numbers (c # cs) = numbers cs"

text \<open>
  \<^verbatim>\<open>Series.mean()\<close>: the missing values of a column of numbers are skipped, and the
  mean of no value is missing. A column that holds a text has the dtype \<^verbatim>\<open>object\<close>
  and its mean raises \<^verbatim>\<open>TypeError\<close>. No sensor column of a loaded frame holds a
  timestamp; the model raises there too.
\<close>

definition mean :: "cell list \<Rightarrow> exn + cell" where
  "mean xs =
     (if list_all is_number xs
      then (if numbers xs = [] then Inr NaN
            else Inr (Float (sum_list (numbers xs) / of_nat (length (numbers xs)))))
      else Inl (Exception ''TypeError: could not convert to numeric''))"

text \<open>\<^verbatim>\<open>Series.iloc[-1]\<close>: the last value; \<^verbatim>\<open>IndexError\<close> on no value.\<close>

definition iloc_last :: "cell list \<Rightarrow> exn + cell" where
  "iloc_last xs =
     (if xs = [] then Inl (Exception ''IndexError: single positional indexer is out-of-bounds'')
      else Inr (last xs))"

text \<open>
  The format \<^verbatim>\<open>{x:.df}\<close>: a number is printed with \<open>d\<close> decimals, a missing value
  as \<^verbatim>\<open>nan\<close>; for a text Python raises \<^verbatim>\<open>ValueError\<close> (unknown format code).
\<close>

fun format_f :: "nat \<Rightarrow> cell \<Rightarrow> exn + piece" where
  "format_f d (Integer n) = Inr (Fixed d (of_int n))"
| "format_f d (Float q) = Inr (Fixed d q)"
| "format_f d NaN = Inr Nan"
| "format_f d c = Inl (Exception ''ValueError: unknown format code f'')"

text \<open>
  The dtype of a column, read from its values: integers within \<^verbatim>\<open>int64\<close>, or else
  within \<^verbatim>\<open>uint64\<close>; floats and missing values; timestamps; anything else is a
  column of objects. (An empty column has no value to tell its dtype; it occurs on an
  empty frame only, where no dtype is asked for.)
\<close>

datatype dtype = int64 | uint64 | float64 | datetime64 | object

fun is_int64 :: "cell \<Rightarrow> bool" where
  "is_int64 (Integer n) = (INT64_MIN \<le> n \<and> n \<le> INT64_MAX)"
| "is_int64 c = False"

fun is_uint64 :: "cell \<Rightarrow> bool" where
  "is_uint64 (Integer n) = (0 \<le> n \<and> n \<le> UINT64_MAX)"
| "is_uint64 c = False"

fun is_stamp :: "cell \<Rightarrow> bool" where
  "is_stamp (Ts t) = True"
| "is_stamp NaT = True"
| "is_stamp c = False"

definition dtype_of :: "cell list \<Rightarrow> dtype" where
  "dtype_of xs =
     (if xs = [] then object
      else if list_all is_int64 xs then int64
      else if list_all is_uint64 xs then uint64
      else if list_all is_float xs then float64
      else if list_all is_stamp xs then datetime64
      else object)"

definition dtype_name :: "dtype \<Rightarrow> string" where
  "dtype_name t =
     (case t of
        int64 \<Rightarrow> ''int64''
      | uint64 \<Rightarrow> ''uint64''
      | float64 \<Rightarrow> ''float64''
      | datetime64 \<Rightarrow> ''datetime64[ns]''
      | object \<Rightarrow> ''object'')"

text \<open>\<^verbatim>\<open>df.head()\<close> (five rows) and \<^verbatim>\<open>df.tail(10)\<close>.\<close>

definition head :: "dataframe \<Rightarrow> dataframe" where
  "head df = \<lparr>nrows = min 5 (nrows df), cols = map (\<lambda>(n, xs). (n, take 5 xs)) (cols df)\<rparr>"

definition tail :: "nat \<Rightarrow> dataframe \<Rightarrow> dataframe" where
  "tail k df =
     \<lparr>nrows = min k (nrows df),
      cols = map (\<lambda>(n, xs). (n, drop (length xs - k) xs)) (cols df)\<rparr>"

subsection \<open>The four metrics (lines 68 to 90)\<close>

definition metric_total :: "dataframe \<Rightarrow> render" where
  "metric_total df = shown [StMetric ''Total Registros'' [Dec (len df)]]"

definition metric_voltaje :: "dataframe \<Rightarrow> render" where
  "metric_voltaje df =
     (if ''Voltaje'' \<in> set (columns df) then
        of_result
          (and_then (getitem df ''Voltaje'') (\<lambda>xs.
           and_then (mean xs) (\<lambda>m.
           and_then (format_f 2 m) (\<lambda>t.
           Inr [StMetric ''Voltaje Promedio'' [t, Lit '' V'']]))))
      else shown [StMetric ''Voltaje'' [Lit ''N/A'']])"

definition metric_temperatura :: "dataframe \<Rightarrow> render" where
  "metric_temperatura df =
     (if ''Temperatura'' \<in> set (columns df) then
        of_result
          (and_then (getitem df ''Temperatura'') (\<lambda>xs.
           and_then (iloc_last xs) (\<lambda>v.
           and_then (format_f 1 v) (\<lambda>t.
           Inr [StMetric ''Temp. Actual'' [t, Lit '' C'']]))))
      else shown [StMetric ''Temperatura'' [Lit ''N/A'']])"

definition metric_humedad :: "dataframe \<Rightarrow> render" where
  "metric_humedad df =
     (if ''Humedad'' \<in> set (columns df) then
        of_result
          (and_then (getitem df ''Humedad'') (\<lambda>xs.
           and_then (iloc_last xs) (\<lambda>v.
           and_then (format_f 1 v) (\<lambda>t.
           Inr [StMetric ''Humedad Actual'' [t, Lit '' %'']]))))
      else shown [StMetric ''Humedad'' [Lit ''N/A'']])"

definition metrics :: "dataframe \<Rightarrow> render" where
  "metrics df =
     in_order [metric_total df, metric_voltaje df, metric_temperatura df, metric_humedad df]"

subsection \<open>Sidebar, chart and tables (lines 92 to 147)\<close>

definition sidebar_columns :: "dataframe \<Rightarrow> render" where
  "sidebar_columns df =
     shown (SidebarMarkdown ''### Columnas disponibles:'' #
            (if \<not> df_empty df
             then map (\<lambda>col. SidebarWrite [Lit ''- `'', Lit col, Lit ''`'']) (columns df)
             else []))"

definition available_columns :: "dataframe \<Rightarrow> string list" where
  "available_columns df =
     map fst (filter (\<lambda>(col, xs). col \<noteq> ''FechaHora'' \<and> dtype_of xs \<in> set [float64, int64])
                (cols df))"

definition colors :: "string list" where
  "colors = [''#1f77b4'', ''#ff7f0e'', ''#2ca02c'', ''#d62728'', ''#9467bd'', ''#8c564b'']"

definition add_trace ::
  "dataframe \<Rightarrow> nat \<times> string \<Rightarrow> exn + (cell list \<times> cell list \<times> string \<times> string)" where
  "add_trace df ic =
     (case ic of (i, col) \<Rightarrow>
        and_then (getitem df ''FechaHora'') (\<lambda>x.
        and_then (getitem df col) (\<lambda>y.
        Inr (x, y, col, colors ! (i mod length colors)))))"

text \<open>
  The choice in the multiselect is the user's: a parameter that gives the selection
  from the options and the default.
\<close>

definition chart :: "(string list \<Rightarrow> string list \<Rightarrow> string list) \<Rightarrow> dataframe \<Rightarrow> render" where
  "chart pick df =
     (if ''FechaHora'' \<in> set (columns df) then
        then_render (shown [StSubheader ''Evolucion Temporal''])
          (let available = available_columns df in
           if available \<noteq> [] then
             (let dflt = (if length available \<ge> 2 then take 2 available else available);
                  selected = pick available dflt
              in then_render
                   (shown [StMultiselect ''Selecciona variables para graficar:'' available dflt])
                   (if selected \<noteq> [] then
                      of_result
                        (and_then (sequence (map (add_trace df) (enumerate 0 selected))) (\<lambda>traces.
                         Inr [StPlotlyChart traces]))
                    else shown []))
           else shown [StWarning ''No hay columnas numericas para graficar''])
      else shown [])"

definition tables :: "dataframe \<Rightarrow> render" where
  "tables df =
     shown [StSubheader ''Datos Recientes'',
            StExpander ''Ver estructura de datos'' False
              [StWrite ''**Tipos de datos:**'',
               StWriteDtypes (map (\<lambda>(n, xs). (n, dtype_name (dtype_of xs))) (cols df)),
               StWrite ''**Primeras filas:**'',
               StDataframe (head df)],
            StDataframe (tail 10 df)]"

subsection \<open>The fallback view (lines 149 to 164)\<close>

definition ejemplo_data :: dataframe where
  "ejemplo_data =
     \<lparr>nrows = 2,
      cols = [(''FechaHora'', [Str ''2024-01-01 10:00:00'', Str ''2024-01-01 10:00:10'']),
              (''Voltaje'', [Float (33 / 10), Float (32 / 10)]),
              (''CorrienteINA'', [Float (1505 / 10), Float (1482 / 10)]),
              (''Potencia'', [Float 495, Float 480]),
              (''CorrienteACS'', [Float 145, Float (1435 / 10)]),
              (''Temperatura'', [Float (255 / 10), Float (256 / 10)]),
              (''Humedad'', [Float 60, Float (598 / 10)])]\<rparr>"

definition fallback :: "element list" where
  "fallback =
     [StError [Lit ''No se pudieron cargar los datos''],
      StExpander ''Solucion de problemas'' True [StDataframe ejemplo_data]]"

subsection \<open>The branch on emptiness (line 65)\<close>

definition presenter :: "(string list \<Rightarrow> string list \<Rightarrow> string list) \<Rightarrow> dataframe \<Rightarrow> render" where
  "presenter pick df =
     (if \<not> df_empty df then
        in_order
          [shown [StSuccess [Lit ''Datos cargados correctamente: '', Dec (len df), Lit '' registros'']],
           metrics df,
           sidebar_columns df,
           chart pick df,
           tables df]
      else shown fallback)"

text \<open>The script from its first line to the end of the branch: the loader, then the page.\<close>

definition script :: "env \<Rightarrow> (string list \<Rightarrow> string list \<Rightarrow> string list) \<Rightarrow> render" where
  "script w pick =
     (case load_data w of (df, msgs) \<Rightarrow> then_render (shown msgs) (presenter pick df))"

section \<open>Sample environments\<close>

text \<open>
  Environments for the examples: a parser that knows the two texts of the example
  record and reads a number as nanoseconds since the epoch, a sheet that answers every
  call, and a sheet that cannot be reached.
\<close>

definition demo_parse :: parser where
  "demo_parse xs c =
     (case c of
        Integer n \<Rightarrow> Inr (Some n)
      | Float q \<Rightarrow> Inr (Some \<lfloor>q\<rfloor>)
      | Str s \<Rightarrow>
          (if s = ''2024-01-01 10:00:00'' then Inr (Some 1704103200000000000)
           else if s = ''2024-01-01 10:00:10'' then Inr (Some 1704103210000000000)
           else Inl (Exception ''Unknown datetime string format''))
      | _ \<Rightarrow> Inl (Exception ''Unknown datetime string format''))"

definition sheet_env :: "row list \<Rightarrow> int \<Rightarrow> env" where
  "sheet_env rs t =
     \<lparr>from_service_account_file = (\<lambda>path scopes. Inr ()),
      authorize = (\<lambda>creds. Inr ()),
      open_by_key_sheet1 = (\<lambda>client key. Inr ()),
      get_all_records = (\<lambda>sheet. Inr rs),
      now = t,
      parse = demo_parse\<rparr>"

definition offline_env :: env where
  "offline_env =
     \<lparr>from_service_account_file = (\<lambda>path scopes. Inr ()),
      authorize = (\<lambda>creds. Inr ()),
      open_by_key_sheet1 = (\<lambda>client key. Inl (Exception ''Connection aborted'')),
      get_all_records = (\<lambda>sheet. Inr []),
      now = 0,
      parse = demo_parse\<rparr>"

section \<open>Facts about frames and timestamps\<close>

lemma distinct_keys_in_order: "distinct (keys_in_order rs)"
  by (simp add: keys_in_order_def)

lemma set_keys_in_order: "set (keys_in_order rs) = (\<Union>r\<in>set rs. fst ` set r)"
  by (auto simp: keys_in_order_def)

lemma bit_length_less: "n < 2 ^ k \<Longrightarrow> bit_length n \<le> k"
proof (induction k arbitrary: n)
  case 0
  then show ?case by simp
next
  case (Suc k)
  show ?case
  proof (cases n)
    case 0
    then show ?thesis by simp
  next
    case (Suc m)
    have "Suc m div 2 < 2 ^ k"
      using Suc.prems Suc by (simp add: less_mult_imp_div_less mult.commute)
    then have "bit_length (Suc m div 2) \<le> k" by (rule Suc.IH)
    then show ?thesis using Suc by simp
  qed
qed

lemma bit_length_ge: "2 ^ k \<le> n \<Longrightarrow> k < bit_length n"
proof (induction k arbitrary: n)
  case 0
  then show ?case by (cases n) auto
next
  case (Suc k)
  then obtain m where m: "n = Suc m" by (cases n) auto
  have "2 ^ k \<le> Suc m div 2"
    using Suc.prems m by (simp add: less_eq_div_iff_mult_less_eq mult.commute)
  then have "k < bit_length (Suc m div 2)" by (rule Suc.IH)
  then show ?case using m by simp
qed

lemma bit_length_eq: "2 ^ k \<le> n \<Longrightarrow> n < 2 ^ Suc k \<Longrightarrow> bit_length n = Suc k"
  using bit_length_less [of n "Suc k"] bit_length_ge [of k n] by simp





lemma float64_of_int_nat_sentinel:
  "float64_of_int (- 9223372036854775808) = - 9223372036854775808"
proof -
  have "bit_length 9223372036854775808 = Suc 63"
    by (rule bit_length_eq) simp_all
  then show ?thesis
    by (simp add: float64_of_int_def Let_def)
qed


lemma length_infer_column: "length (infer_column xs) = length xs"
  by (simp add: infer_column_def)


lemma infer_column_text: "Str s \<in> set xs \<Longrightarrow> infer_column xs = xs"
proof -
  assume "Str s \<in> set xs"
  then have "list_ex is_python_object xs"
    by (auto simp: list_ex_iff intro!: bexI [of _ "Str s"])
  then show ?thesis
    by (simp add: infer_column_def stays_object_def)
qed

lemma is_null_as_float64: "is_null c \<Longrightarrow> is_null (as_float64 c)"
  by (cases c) (auto simp: as_float64_def float64_of_int_nat_sentinel)

lemma is_null_infer_column:
  "i < length xs \<Longrightarrow> is_null (xs ! i) \<Longrightarrow> is_null (infer_column xs ! i)"
  by (simp add: infer_column_def is_null_as_float64)

lemma columns_DataFrame: "columns (DataFrame rs) = keys_in_order rs"
  by (simp add: columns_def DataFrame_def comp_def)

lemma nrows_DataFrame: "nrows (DataFrame rs) = length rs"
  by (simp add: DataFrame_def)

lemma map_of_keyed: "map_of (map (\<lambda>k. (k, f k)) ks) k = (if k \<in> set ks then Some (f k) else None)"
  by (induction ks) auto

lemma getitem_DataFrame:
  "getitem (DataFrame rs) k =
     (if k \<in> set (keys_in_order rs) then Inr (infer_column (map (\<lambda>r. cell_of r k) rs))
      else Inl (Exception k))"
  by (simp add: getitem_def DataFrame_def map_of_keyed)

lemma map_of_replace:
  "map_of (map (\<lambda>(n, xs). if n = k then (n, vs) else (n, xs)) cs) j =
     (if j = k then (if k \<in> fst ` set cs then Some vs else None) else map_of cs j)"
  by (induction cs) (auto split: if_splits)

lemma map_of_append_new:
  "k \<notin> fst ` set cs \<Longrightarrow> map_of (cs @ [(k, vs)]) j = (if j = k then Some vs else map_of cs j)"
  by (induction cs) auto

lemma getitem_setitem_same: "getitem (setitem df k vs) k = Inr vs"
  by (simp add: getitem_def setitem_def columns_def map_of_replace map_of_append_new del: map_of_append)

lemma getitem_setitem_other: "j \<noteq> k \<Longrightarrow> getitem (setitem df k vs) j = getitem df j"
  by (simp add: getitem_def setitem_def columns_def map_of_replace map_of_append_new del: map_of_append)

lemma nrows_setitem: "nrows (setitem df k vs) = nrows df"
  by (simp add: setitem_def)




lemma sequence_Inr:
  "sequence xs = Inr ys \<Longrightarrow> length ys = length xs \<and> (\<forall>i < length xs. xs ! i = Inr (ys ! i))"
proof (induction xs arbitrary: ys)
  case Nil
  then show ?case by simp
next
  case (Cons x xs)
  then show ?case
    by (auto split: sum.splits simp: nth_Cons split: nat.splits)
qed

lemma sequence_Inl:
  "sequence xs = Inl e \<Longrightarrow> \<exists>i < length xs. xs ! i = Inl e"
proof (induction xs)
  case Nil
  then show ?case by simp
next
  case (Cons x xs)
  then show ?case
    by (fastforce split: sum.splits)
qed

lemma to_datetime_cell_null: "is_null c \<Longrightarrow> to_datetime_cell p xs c = Inr NaT"
  by (simp add: to_datetime_cell_def)

lemma to_datetime_cell_NaT:
  "to_datetime_cell p xs c = Inr NaT \<Longrightarrow> is_null c \<or> p xs c = Inr None"
  by (cases c) (auto simp: to_datetime_cell_def split: if_splits sum.splits option.splits)

lemma to_datetime_Inr:
  assumes "to_datetime p xs = Inr ts"
  shows "length ts = length xs"
    and "i < length xs \<Longrightarrow> is_null (xs ! i) \<Longrightarrow> ts ! i = NaT"
    and "i < length xs \<Longrightarrow> ts ! i = NaT \<Longrightarrow> is_null (xs ! i) \<or> p xs (xs ! i) = Inr None"
proof -
  from assms have s: "length ts = length xs"
    "\<forall>i < length xs. to_datetime_cell p xs (xs ! i) = Inr (ts ! i)"
    using sequence_Inr [of "map (to_datetime_cell p xs) xs" ts] by (auto simp: to_datetime_def)
  show "length ts = length xs" by (rule s(1))
  show "i < length xs \<Longrightarrow> is_null (xs ! i) \<Longrightarrow> ts ! i = NaT"
    using s(2) to_datetime_cell_null [of "xs ! i" p xs] by auto
  show "i < length xs \<Longrightarrow> ts ! i = NaT \<Longrightarrow> is_null (xs ! i) \<or> p xs (xs ! i) = Inr None"
    using s(2) to_datetime_cell_NaT [of p xs "xs ! i"] by auto
qed

section \<open>Facts about the loader\<close>

lemma load_try_Inr:
  "load_try w = Inr df \<Longrightarrow>
     \<exists>rs. get_all_records w () = Inr rs \<and> resolve_timestamp w (DataFrame rs) = Inr df"
  by (auto simp: load_try_def and_then_def split: sum.splits)

lemma load_data_cases:
  "load_data w = (df, msgs) \<Longrightarrow>
     (load_try w = Inr df \<and> msgs = []) \<or>
     (\<exists>m. load_try w = Inl (Exception m) \<and> df = empty_frame \<and>
          msgs = [StError [Lit ''Error cargando datos: '', Lit m]])"
  by (auto simp: load_data_def split: sum.splits exn.splits)

text \<open>
  The three branches of lines 44 to 54, on the frame built from the records: what is
  parsed, what fails and what is stored.
\<close>

lemma resolve_timestamp_FechaHora:
  assumes "''FechaHora'' \<in> set (keys_in_order rs)"
  shows "resolve_timestamp w (DataFrame rs) =
     (case to_datetime (parse w) (infer_column (map (\<lambda>r. cell_of r ''FechaHora'') rs)) of
        Inl e \<Rightarrow> Inl e
      | Inr ts \<Rightarrow> Inr (setitem (DataFrame rs) ''FechaHora'' ts))"
  using assms
  by (simp add: resolve_timestamp_def columns_DataFrame getitem_DataFrame and_then_def
      split: sum.splits)

lemma resolve_timestamp_Timestamp:
  assumes "''FechaHora'' \<notin> set (keys_in_order rs)" and "''Timestamp'' \<in> set (keys_in_order rs)"
  shows "resolve_timestamp w (DataFrame rs) =
     (case to_datetime (parse w) (infer_column (map (\<lambda>r. cell_of r ''Timestamp'') rs)) of
        Inl e \<Rightarrow> Inl e
      | Inr ts \<Rightarrow> Inr (setitem (DataFrame rs) ''FechaHora'' ts))"
  using assms
  by (simp add: resolve_timestamp_def columns_DataFrame getitem_DataFrame and_then_def
      split: sum.splits)

lemma resolve_timestamp_synthetic:
  assumes "''FechaHora'' \<notin> set (keys_in_order rs)" and "''Timestamp'' \<notin> set (keys_in_order rs)"
  shows "resolve_timestamp w (DataFrame rs) =
     Inr (setitem (DataFrame rs) ''FechaHora''
            (date_range (now w - timedelta_days 1) (length rs) freq_10S))"
  using assms
  by (simp add: resolve_timestamp_def columns_DataFrame len_def nrows_DataFrame)

lemma resolve_timestamp_Inr:
  assumes "resolve_timestamp w (DataFrame rs) = Inr df"
  shows "\<exists>ts. df = setitem (DataFrame rs) ''FechaHora'' ts \<and> length ts = length rs \<and>
     (if ''FechaHora'' \<in> set (keys_in_order rs)
      then to_datetime (parse w) (infer_column (map (\<lambda>r. cell_of r ''FechaHora'') rs)) = Inr ts
      else if ''Timestamp'' \<in> set (keys_in_order rs)
      then to_datetime (parse w) (infer_column (map (\<lambda>r. cell_of r ''Timestamp'') rs)) = Inr ts
      else ts = date_range (now w - timedelta_days 1) (length rs) freq_10S)"
proof (cases "''FechaHora'' \<in> set (keys_in_order rs)")
  case True
  with assms show ?thesis
    by (auto simp: resolve_timestamp_FechaHora length_infer_column split: sum.splits
        dest: to_datetime_Inr(1))
next
  case False
  show ?thesis
  proof (cases "''Timestamp'' \<in> set (keys_in_order rs)")
    case True
    with assms False show ?thesis
      by (auto simp: resolve_timestamp_Timestamp length_infer_column split: sum.splits
          dest: to_datetime_Inr(1))
  next
    case n: False
    with assms False show ?thesis
      by (auto simp: resolve_timestamp_synthetic date_range_def)
  qed
qed

lemma resolve_timestamp_Inl:
  assumes "resolve_timestamp w (DataFrame rs) = Inl e"
  shows "\<exists>k src. (k = ''FechaHora'' \<or> k = ''Timestamp'')
       \<and> getitem (DataFrame rs) k = Inr src \<and> to_datetime (parse w) src = Inl e"
proof (cases "''FechaHora'' \<in> set (keys_in_order rs)")
  case True
  with assms show ?thesis
    by (auto simp: resolve_timestamp_FechaHora getitem_DataFrame split: sum.splits)
next
  case False
  show ?thesis
  proof (cases "''Timestamp'' \<in> set (keys_in_order rs)")
    case True
    with assms False show ?thesis
      by (auto simp: resolve_timestamp_Timestamp getitem_DataFrame split: sum.splits)
  next
    case n: False
    with assms False show ?thesis
      by (simp add: resolve_timestamp_synthetic)
  qed
qed

lemma load_try_lengths:
  assumes "load_try w = Inr df" and "(k, xs) \<in> set (cols df)"
  shows "length xs = nrows df"
proof -
  from assms(1) obtain rs where rs: "resolve_timestamp w (DataFrame rs) = Inr df"
    using load_try_Inr by blast
  then obtain ts where df: "df = setitem (DataFrame rs) ''FechaHora'' ts" and l: "length ts = length rs"
    using resolve_timestamp_Inr by blast
  have "\<And>k xs. (k, xs) \<in> set (cols (DataFrame rs)) \<Longrightarrow> length xs = length rs"
    by (auto simp: DataFrame_def length_infer_column)
  with assms(2) l show ?thesis
    unfolding df by (auto simp: setitem_def nrows_DataFrame split: if_splits)
qed

lemma load_try_ok:
  assumes "from_service_account_file w ''credentials.json'' SCOPES = Inr ()"
    and "authorize w () = Inr ()"
    and "open_by_key_sheet1 w () SPREADSHEET_ID = Inr ()"
    and "get_all_records w () = Inr rs"
  shows "load_try w = resolve_timestamp w (DataFrame rs)"
  using assms by (simp add: load_try_def and_then_def)

lemma key_absent:
  "(\<forall>r\<in>set rs. map_of r k = None) = (k \<notin> set (keys_in_order rs))"
  by (auto simp: set_keys_in_order map_of_eq_None_iff)

lemma getitem_in_columns: "getitem df k = Inr xs \<Longrightarrow> k \<in> set (columns df)"
  by (auto simp: getitem_def columns_def split: option.splits dest: map_of_SomeD intro: rev_image_eqI)

lemma mean_text: "Str s \<in> set xs \<Longrightarrow> \<exists>e. mean xs = Inl e"
  by (force simp: mean_def list_all_iff)

section \<open>Facts about the page\<close>

lemma fst_then_render_subset:
  "set (fst (then_render a b)) \<subseteq> set (fst a) \<union> set (fst b)"
  by (auto simp: then_render_def split: option.splits)

lemma fst_in_order_subset:
  "set (fst (in_order rs)) \<subseteq> (\<Union>r\<in>set rs. set (fst r))"
proof (induction rs)
  case Nil
  then show ?case by simp
next
  case (Cons r rs)
  then show ?case
    using fst_then_render_subset [of r "in_order rs"] by auto
qed

lemma metrics_elements: "e \<in> set (fst (metrics df)) \<Longrightarrow> \<exists>l v. e = StMetric l v"
  by (auto simp: metrics_def metric_total_def metric_voltaje_def metric_temperatura_def
      metric_humedad_def shown_def of_result_def and_then_def then_render_def
      split: if_splits sum.splits option.splits)

lemma sidebar_elements:
  "e \<in> set (fst (sidebar_columns df)) \<Longrightarrow> (\<exists>t. e = SidebarMarkdown t) \<or> (\<exists>t. e = SidebarWrite t)"
  by (auto simp: sidebar_columns_def shown_def split: if_splits)

lemma chart_elements:
  "e \<in> set (fst (chart pick df)) \<Longrightarrow>
     (\<exists>t. e = StSubheader t) \<or> (\<exists>l a d. e = StMultiselect l a d) \<or> (\<exists>t. e = StPlotlyChart t)
     \<or> (\<exists>t. e = StWarning t)"
  by (auto simp: chart_def shown_def of_result_def and_then_def then_render_def Let_def
      split: if_splits sum.splits option.splits)

lemma tables_elements:
  "e \<in> set (fst (tables df)) \<Longrightarrow>
     (\<exists>t. e = StSubheader t) \<or> (\<exists>es. e = StExpander ''Ver estructura de datos'' False es)
     \<or> (\<exists>d. e = StDataframe d)"
  by (auto simp: tables_def shown_def)

lemma presenter_nonempty_elements:
  assumes "\<not> df_empty df" and "e \<in> set (fst (presenter pick df))"
  shows "(\<forall>t. e \<noteq> StError t) \<and> (\<forall>b es. e \<noteq> StExpander ''Solucion de problemas'' b es)"
proof -
  let ?rs = "[shown [StSuccess [Lit ''Datos cargados correctamente: '', Dec (len df), Lit '' registros'']],
           metrics df, sidebar_columns df, chart pick df, tables df]"
  from assms have "e \<in> (\<Union>r\<in>set ?rs. set (fst r))"
    using fst_in_order_subset [of ?rs] by (auto simp: presenter_def)
  then consider "e \<in> set (fst (shown [StSuccess [Lit ''Datos cargados correctamente: '', Dec (len df), Lit '' registros'']]))"
    | "e \<in> set (fst (metrics df))" | "e \<in> set (fst (sidebar_columns df))"
    | "e \<in> set (fst (chart pick df))" | "e \<in> set (fst (tables df))"
    by auto
  then show ?thesis
  proof cases
    case 1
    then show ?thesis by (auto simp: shown_def)
  next
    case 2
    then show ?thesis using metrics_elements by blast
  next
    case 3
    then show ?thesis using sidebar_elements by blast
  next
    case 4
    then show ?thesis using chart_elements by blast
  next
    case 5
    then show ?thesis using tables_elements by fastforce
  qed
qed

lemma voltaje_in_page:
  assumes "\<not> df_empty df" and "e \<in> set (fst (metric_voltaje df))"
  shows "e \<in> set (fst (presenter pick df))"
proof -
  have "e \<in> set (fst (metrics df))"
    using assms(2) by (auto simp: metrics_def metric_total_def shown_def then_render_def split: option.splits)
  then show ?thesis
    using assms(1) by (auto simp: presenter_def shown_def then_render_def split: option.splits)
qed

section \<open>The claims\<close>

lemmas frame_defs =
  DataFrame_def keys_in_order_def columns_def getitem_def setitem_def cell_of_def
  infer_column_def stays_object_def as_float64_def INT64_MIN_def INT64_MAX_def UINT64_MAX_def

lemmas loader_defs =
  load_data_def load_try_def and_then_def resolve_timestamp_def to_datetime_def
  to_datetime_cell_def nat_strings_def date_range_def timedelta_days_def freq_10S_def len_def

text \<open>
  C1, as amended. Every row of the frame that \<open>load_data\<close> returns has an entry in the
  column \<^verbatim>\<open>FechaHora\<close>. A synthesized entry is never null. An entry parsed from the
  source column \<^verbatim>\<open>FechaHora\<close> (or, without it, \<^verbatim>\<open>Timestamp\<close>) is the null
  timestamp \<open>NaT\<close> whenever the source cell is blank or missing or a null of pandas:
  an empty text, a missing value, one of the texts pandas reads as null, or the number
  \<open>- 2 ^ 63\<close>. It is null only when the cell, as the frame holds it, is such a cell
  or when the parser of pandas itself gives the null timestamp for it.
\<close>

theorem fechahora_null_from_null_cells:
  assumes "load_data w = (df, msgs)" and "i < nrows df"
  shows "\<exists>rs ts. get_all_records w () = Inr rs \<and> nrows df = length rs
     \<and> getitem df ''FechaHora'' = Inr ts \<and> length ts = length rs
     \<and> (if ''FechaHora'' \<in> set (keys_in_order rs)
         then (\<exists>src. getitem (DataFrame rs) ''FechaHora'' = Inr src
                 \<and> (is_null (cell_of (rs ! i) ''FechaHora'') \<longrightarrow> ts ! i = NaT)
                 \<and> (ts ! i = NaT \<longrightarrow> is_null (src ! i) \<or> parse w src (src ! i) = Inr None))
         else if ''Timestamp'' \<in> set (keys_in_order rs)
         then (\<exists>src. getitem (DataFrame rs) ''Timestamp'' = Inr src
                 \<and> (is_null (cell_of (rs ! i) ''Timestamp'') \<longrightarrow> ts ! i = NaT)
                 \<and> (ts ! i = NaT \<longrightarrow> is_null (src ! i) \<or> parse w src (src ! i) = Inr None))
         else ts ! i \<noteq> NaT)"
proof -
  from assms have ok: "load_try w = Inr df"
    using load_data_cases [of w df msgs] by (auto simp: empty_frame_def)
  then obtain rs where rs: "get_all_records w () = Inr rs"
    and res: "resolve_timestamp w (DataFrame rs) = Inr df"
    using load_try_Inr by blast
  from resolve_timestamp_Inr [OF res] obtain ts where
    df: "df = setitem (DataFrame rs) ''FechaHora'' ts" and l: "length ts = length rs" and
    src: "if ''FechaHora'' \<in> set (keys_in_order rs)
      then to_datetime (parse w) (infer_column (map (\<lambda>r. cell_of r ''FechaHora'') rs)) = Inr ts
      else if ''Timestamp'' \<in> set (keys_in_order rs)
      then to_datetime (parse w) (infer_column (map (\<lambda>r. cell_of r ''Timestamp'') rs)) = Inr ts
      else ts = date_range (now w - timedelta_days 1) (length rs) freq_10S"
    by blast
  have n: "nrows df = length rs"
    by (simp add: df nrows_setitem nrows_DataFrame)
  have g: "getitem df ''FechaHora'' = Inr ts"
    by (simp add: df getitem_setitem_same)
  have i: "i < length rs" using assms(2) n by simp
  have parsed: "\<exists>src. getitem (DataFrame rs) k = Inr src
                 \<and> (is_null (cell_of (rs ! i) k) \<longrightarrow> ts ! i = NaT)
                 \<and> (ts ! i = NaT \<longrightarrow> is_null (src ! i) \<or> parse w src (src ! i) = Inr None)"
    if k: "k \<in> set (keys_in_order rs)"
      and t: "to_datetime (parse w) (infer_column (map (\<lambda>r. cell_of r k) rs)) = Inr ts" for k
  proof -
    let ?src = "infer_column (map (\<lambda>r. cell_of r k) rs)"
    have a: "getitem (DataFrame rs) k = Inr ?src"
      using k by (simp add: getitem_DataFrame)
    have li: "i < length ?src"
      using i by (simp add: length_infer_column)
    have b: "is_null (cell_of (rs ! i) k) \<longrightarrow> ts ! i = NaT"
      using to_datetime_Inr(2) [OF t li] is_null_infer_column [of i "map (\<lambda>r. cell_of r k) rs"] i
      by simp
    have c: "ts ! i = NaT \<longrightarrow> is_null (?src ! i) \<or> parse w ?src (?src ! i) = Inr None"
      using to_datetime_Inr(3) [OF t li] by blast
    from a b c show ?thesis by blast
  qed
  have "if ''FechaHora'' \<in> set (keys_in_order rs)
         then (\<exists>src. getitem (DataFrame rs) ''FechaHora'' = Inr src
                 \<and> (is_null (cell_of (rs ! i) ''FechaHora'') \<longrightarrow> ts ! i = NaT)
                 \<and> (ts ! i = NaT \<longrightarrow> is_null (src ! i) \<or> parse w src (src ! i) = Inr None))
         else if ''Timestamp'' \<in> set (keys_in_order rs)
         then (\<exists>src. getitem (DataFrame rs) ''Timestamp'' = Inr src
                 \<and> (is_null (cell_of (rs ! i) ''Timestamp'') \<longrightarrow> ts ! i = NaT)
                 \<and> (ts ! i = NaT \<longrightarrow> is_null (src ! i) \<or> parse w src (src ! i) = Inr None))
         else ts ! i \<noteq> NaT"
  proof (cases "''FechaHora'' \<in> set (keys_in_order rs)")
    case True
    then show ?thesis using src parsed [of "''FechaHora''"] by simp
  next
    case False
    show ?thesis
    proof (cases "''Timestamp'' \<in> set (keys_in_order rs)")
      case True
      then show ?thesis using False src parsed [of "''Timestamp''"] by simp
    next
      case n: False
      then show ?thesis using False src i by (simp add: date_range_def)
    qed
  qed
  with rs n g l show ?thesis by blast
qed

text \<open>
  The theorem at a sheet of two rows whose second \<^verbatim>\<open>FechaHora\<close> cell is blank: the
  second row has the null timestamp.
\<close>

theorem fechahora_null_from_null_cells_witness:
  "load_data (sheet_env [[(''FechaHora'', Str ''2024-01-01 10:00:00'')], [(''FechaHora'', Str [])]] 0)
     = (\<lparr>nrows = 2, cols = [(''FechaHora'', [Ts 1704103200000000000, NaT])]\<rparr>, [])
   \<and> (1 :: nat) < nrows \<lparr>nrows = 2, cols = [(''FechaHora'', [Ts 1704103200000000000, NaT])]\<rparr>
   \<and> is_null (cell_of ([[(''FechaHora'', Str ''2024-01-01 10:00:00'')], [(''FechaHora'', Str [])]] ! 1)
        ''FechaHora'')
   \<and> (\<exists>ts. getitem \<lparr>nrows = 2, cols = [(''FechaHora'', [Ts 1704103200000000000, NaT])]\<rparr> ''FechaHora''
           = Inr ts \<and> ts ! 1 = NaT)"
proof -
  let ?rs = "[[(''FechaHora'', Str ''2024-01-01 10:00:00'')], [(''FechaHora'', Str [])]]"
  let ?E = "sheet_env ?rs 0"
  let ?D = "\<lparr>nrows = 2, cols = [(''FechaHora'', [Ts 1704103200000000000, NaT])]\<rparr>"
  have h1: "load_data ?E = (?D, [])"
    by (simp add: loader_defs frame_defs sheet_env_def demo_parse_def)
  have h2: "(1 :: nat) < nrows ?D" by simp
  have k: "''FechaHora'' \<in> set (keys_in_order ?rs)"
    by (simp add: keys_in_order_def)
  have b: "is_null (cell_of (?rs ! 1) ''FechaHora'')"
    by (simp add: cell_of_def)
  from fechahora_null_from_null_cells [OF h1 h2] obtain rs ts where
    a: "get_all_records ?E () = Inr rs" and g: "getitem ?D ''FechaHora'' = Inr ts" and
    c: "if ''FechaHora'' \<in> set (keys_in_order rs)
         then (\<exists>src. getitem (DataFrame rs) ''FechaHora'' = Inr src
                 \<and> (is_null (cell_of (rs ! 1) ''FechaHora'') \<longrightarrow> ts ! 1 = NaT)
                 \<and> (ts ! 1 = NaT \<longrightarrow> is_null (src ! 1) \<or> parse ?E src (src ! 1) = Inr None))
         else if ''Timestamp'' \<in> set (keys_in_order rs)
         then (\<exists>src. getitem (DataFrame rs) ''Timestamp'' = Inr src
                 \<and> (is_null (cell_of (rs ! 1) ''Timestamp'') \<longrightarrow> ts ! 1 = NaT)
                 \<and> (ts ! 1 = NaT \<longrightarrow> is_null (src ! 1) \<or> parse ?E src (src ! 1) = Inr None))
         else ts ! 1 \<noteq> NaT"
    by blast
  from a have r: "rs = ?rs"
    by (simp add: sheet_env_def)
  from c k b have "ts ! 1 = NaT"
    unfolding r by auto
  with h1 h2 b g show ?thesis by blast
qed

text \<open>
  The claim as it was stated fails on a sheet whose only \<^verbatim>\<open>FechaHora\<close> cell is blank,
  and on one whose only \<^verbatim>\<open>FechaHora\<close> cell is the integer \<open>- 2 ^ 63\<close>: the one row
  of the returned frame has the null timestamp.
\<close>

theorem fechahora_null_on_blank_cell:
  "getitem (fst (load_data (sheet_env [[(''FechaHora'', Str [])]] 0))) ''FechaHora'' = Inr [NaT]
   \<and> nrows (fst (load_data (sheet_env [[(''FechaHora'', Str [])]] 0))) = 1
   \<and> getitem (fst (load_data (sheet_env [[(''FechaHora'', Integer (- 9223372036854775808))]] 0)))
       ''FechaHora'' = Inr [NaT]
   \<and> nrows (fst (load_data (sheet_env [[(''FechaHora'', Integer (- 9223372036854775808))]] 0))) = 1"
  by (simp add: loader_defs frame_defs sheet_env_def)

text \<open>
  C2, as amended. When the sheet answers with \<open>N\<close> records none of which has a key
  \<^verbatim>\<open>FechaHora\<close> or \<^verbatim>\<open>Timestamp\<close>, \<open>load_data\<close> returns \<open>N\<close> rows with \<open>N\<close>
  synthesized timestamps, strictly increasing and exactly 10 seconds apart, the first
  one day before the fetch time: row \<open>i\<close> has the fetch time minus one day plus
  \<open>10 i\<close> seconds.
\<close>

theorem synthetic_timestamps_start_one_day_back:
  assumes "from_service_account_file w ''credentials.json'' SCOPES = Inr ()"
    and "authorize w () = Inr ()"
    and "open_by_key_sheet1 w () SPREADSHEET_ID = Inr ()"
    and "get_all_records w () = Inr rs"
    and "\<forall>r\<in>set rs. map_of r ''FechaHora'' = None \<and> map_of r ''Timestamp'' = None"
  shows "\<exists>df ts. load_data w = (df, []) \<and> nrows df = length rs
     \<and> getitem df ''FechaHora'' = Inr ts \<and> length ts = length rs
     \<and> (\<forall>i < length rs. ts ! i = Ts (now w - 86400000000000 + 10000000000 * int i))"
proof -
  from assms(5) have k: "''FechaHora'' \<notin> set (keys_in_order rs)" "''Timestamp'' \<notin> set (keys_in_order rs)"
    using key_absent [of rs "''FechaHora''"] key_absent [of rs "''Timestamp''"] by auto
  let ?ts = "date_range (now w - timedelta_days 1) (length rs) freq_10S"
  let ?df = "setitem (DataFrame rs) ''FechaHora'' ?ts"
  have "load_try w = Inr ?df"
    using k by (simp add: load_try_ok [OF assms(1-4)] resolve_timestamp_synthetic)
  then have 1: "load_data w = (?df, [])"
    by (simp add: load_data_def)
  have 2: "nrows ?df = length rs"
    by (simp add: nrows_setitem nrows_DataFrame)
  have 3: "getitem ?df ''FechaHora'' = Inr ?ts"
    by (simp add: getitem_setitem_same)
  have 4: "length ?ts = length rs"
    by (simp add: date_range_def)
  have 5: "\<forall>i < length rs. ?ts ! i = Ts (now w - 86400000000000 + 10000000000 * int i)"
    by (simp add: date_range_def timedelta_days_def freq_10S_def)
  from 1 2 3 4 5 show ?thesis by blast
qed

theorem synthetic_timestamps_witness:
  "\<exists>df ts. load_data (sheet_env [[(''Voltaje'', Integer 3)], [(''Voltaje'', Integer 4)]] 86400000000000)
       = (df, [])
     \<and> nrows df = 2 \<and> getitem df ''FechaHora'' = Inr ts \<and> length ts = 2
     \<and> ts ! 0 = Ts 0 \<and> ts ! 1 = Ts 10000000000"
  using synthetic_timestamps_start_one_day_back
    [of "sheet_env [[(''Voltaje'', Integer 3)], [(''Voltaje'', Integer 4)]] 86400000000000"
        "[[(''Voltaje'', Integer 3)], [(''Voltaje'', Integer 4)]]"]
  by (auto simp: sheet_env_def)

text \<open>
  The claim as it was stated fails on a sheet of one row fetched one day after the
  epoch: the only, hence last, timestamp is the epoch, not the fetch time.
\<close>

theorem synthetic_last_is_not_fetch_time:
  "getitem (fst (load_data (sheet_env [[(''Voltaje'', Integer 3)]] 86400000000000))) ''FechaHora''
     = Inr [Ts 0]
   \<and> Ts 0 \<noteq> Ts (now (sheet_env [[(''Voltaje'', Integer 3)]] 86400000000000))"
  by (simp add: loader_defs frame_defs sheet_env_def)

text \<open>
  C3. Whatever fails inside the loader (reading the credentials, authorizing, opening
  the sheet, fetching the records, or parsing the timestamp column of a malformed
  sheet), \<open>load_data\<close> raises nothing: it returns the empty frame, which has neither
  rows nor columns, and shows the message of the failure after the text
  \<^verbatim>\<open>Error cargando datos: \<close>.
\<close>

theorem load_data_failure_is_empty_with_message:
  assumes "from_service_account_file w ''credentials.json'' SCOPES = Inl (Exception m)
    \<or> (from_service_account_file w ''credentials.json'' SCOPES = Inr ()
        \<and> authorize w () = Inl (Exception m))
    \<or> (from_service_account_file w ''credentials.json'' SCOPES = Inr ()
        \<and> authorize w () = Inr ()
        \<and> open_by_key_sheet1 w () SPREADSHEET_ID = Inl (Exception m))
    \<or> (from_service_account_file w ''credentials.json'' SCOPES = Inr ()
        \<and> authorize w () = Inr ()
        \<and> open_by_key_sheet1 w () SPREADSHEET_ID = Inr ()
        \<and> get_all_records w () = Inl (Exception m))
    \<or> (from_service_account_file w ''credentials.json'' SCOPES = Inr ()
        \<and> authorize w () = Inr ()
        \<and> open_by_key_sheet1 w () SPREADSHEET_ID = Inr ()
        \<and> get_all_records w () = Inr rs
        \<and> resolve_timestamp w (DataFrame rs) = Inl (Exception m))"
  shows "load_data w = (\<lparr>nrows = 0, cols = []\<rparr>, [StError [Lit ''Error cargando datos: '', Lit m]])
    \<and> df_empty (fst (load_data w))"
proof -
  from assms have "load_try w = Inl (Exception m)"
    by (auto simp: load_try_def and_then_def)
  then show ?thesis
    by (simp add: load_data_def empty_frame_def df_empty_def)
qed

theorem load_data_failure_witness:
  "load_data offline_env =
     (\<lparr>nrows = 0, cols = []\<rparr>, [StError [Lit ''Error cargando datos: '', Lit ''Connection aborted'']])
   \<and> df_empty (fst (load_data offline_env))"
  using load_data_failure_is_empty_with_message [of offline_env "''Connection aborted''"]
  by (simp add: offline_env_def df_empty_def)

text \<open>
  C4. When the sheet answers with its records, \<open>load_data\<close> resolves the timestamps in
  this order. If the frame built from the records has a column \<^verbatim>\<open>FechaHora\<close>, that
  column is parsed: the parsed values are the column \<^verbatim>\<open>FechaHora\<close> of the result, and
  a failure of the parsing is the failure of the load. Otherwise, if the frame has a
  column \<^verbatim>\<open>Timestamp\<close>, that column is parsed in the same way, into a new column
  \<^verbatim>\<open>FechaHora\<close>. Otherwise the load succeeds with the synthesized sequence.
\<close>

theorem timestamp_priority:
  assumes "from_service_account_file w ''credentials.json'' SCOPES = Inr ()"
    and "authorize w () = Inr ()"
    and "open_by_key_sheet1 w () SPREADSHEET_ID = Inr ()"
    and "get_all_records w () = Inr rs"
  shows "(''FechaHora'' \<in> set (columns (DataFrame rs)) \<longrightarrow>
            (\<exists>src. getitem (DataFrame rs) ''FechaHora'' = Inr src
               \<and> (\<forall>m. to_datetime (parse w) src = Inl (Exception m) \<longrightarrow>
                     load_data w =
                       (\<lparr>nrows = 0, cols = []\<rparr>, [StError [Lit ''Error cargando datos: '', Lit m]]))
               \<and> (\<forall>ts. to_datetime (parse w) src = Inr ts \<longrightarrow>
                     (\<exists>df. load_data w = (df, []) \<and> getitem df ''FechaHora'' = Inr ts))))
     \<and> (''FechaHora'' \<notin> set (columns (DataFrame rs)) \<and> ''Timestamp'' \<in> set (columns (DataFrame rs)) \<longrightarrow>
            (\<exists>src. getitem (DataFrame rs) ''Timestamp'' = Inr src
               \<and> (\<forall>m. to_datetime (parse w) src = Inl (Exception m) \<longrightarrow>
                     load_data w =
                       (\<lparr>nrows = 0, cols = []\<rparr>, [StError [Lit ''Error cargando datos: '', Lit m]]))
               \<and> (\<forall>ts. to_datetime (parse w) src = Inr ts \<longrightarrow>
                     (\<exists>df. load_data w = (df, []) \<and> getitem df ''FechaHora'' = Inr ts))))
     \<and> (''FechaHora'' \<notin> set (columns (DataFrame rs)) \<and> ''Timestamp'' \<notin> set (columns (DataFrame rs)) \<longrightarrow>
            (\<exists>df. load_data w = (df, [])
               \<and> getitem df ''FechaHora'' =
                   Inr (map (\<lambda>i. Ts (now w - 86400000000000 + 10000000000 * int i)) [0..<length rs])))"
proof -
  note lt = load_try_ok [OF assms]
  have parsed:
    "\<exists>src. getitem (DataFrame rs) k = Inr src
       \<and> (\<forall>m. to_datetime (parse w) src = Inl (Exception m) \<longrightarrow>
             load_data w =
               (\<lparr>nrows = 0, cols = []\<rparr>, [StError [Lit ''Error cargando datos: '', Lit m]]))
       \<and> (\<forall>ts. to_datetime (parse w) src = Inr ts \<longrightarrow>
             (\<exists>df. load_data w = (df, []) \<and> getitem df ''FechaHora'' = Inr ts))"
    if k: "k \<in> set (keys_in_order rs)"
      and r: "resolve_timestamp w (DataFrame rs) =
        (case to_datetime (parse w) (infer_column (map (\<lambda>r. cell_of r k) rs)) of
           Inl e \<Rightarrow> Inl e
         | Inr ts \<Rightarrow> Inr (setitem (DataFrame rs) ''FechaHora'' ts))" for k
  proof -
    let ?src = "infer_column (map (\<lambda>r. cell_of r k) rs)"
    have a: "getitem (DataFrame rs) k = Inr ?src"
      using k by (simp add: getitem_DataFrame)
    have b: "\<forall>m. to_datetime (parse w) ?src = Inl (Exception m) \<longrightarrow>
             load_data w =
               (\<lparr>nrows = 0, cols = []\<rparr>, [StError [Lit ''Error cargando datos: '', Lit m]])"
      by (simp add: load_data_def lt r empty_frame_def)
    have c: "\<forall>ts. to_datetime (parse w) ?src = Inr ts \<longrightarrow>
             (\<exists>df. load_data w = (df, []) \<and> getitem df ''FechaHora'' = Inr ts)"
      by (simp add: load_data_def lt r getitem_setitem_same)
    from a b c show ?thesis by blast
  qed
  have 1: "''FechaHora'' \<in> set (columns (DataFrame rs)) \<longrightarrow>
            (\<exists>src. getitem (DataFrame rs) ''FechaHora'' = Inr src
               \<and> (\<forall>m. to_datetime (parse w) src = Inl (Exception m) \<longrightarrow>
                     load_data w =
                       (\<lparr>nrows = 0, cols = []\<rparr>, [StError [Lit ''Error cargando datos: '', Lit m]]))
               \<and> (\<forall>ts. to_datetime (parse w) src = Inr ts \<longrightarrow>
                     (\<exists>df. load_data w = (df, []) \<and> getitem df ''FechaHora'' = Inr ts)))"
    using parsed [of "''FechaHora''"] resolve_timestamp_FechaHora [of rs w]
    by (simp add: columns_DataFrame)
  have 2: "''FechaHora'' \<notin> set (columns (DataFrame rs)) \<and> ''Timestamp'' \<in> set (columns (DataFrame rs)) \<longrightarrow>
            (\<exists>src. getitem (DataFrame rs) ''Timestamp'' = Inr src
               \<and> (\<forall>m. to_datetime (parse w) src = Inl (Exception m) \<longrightarrow>
                     load_data w =
                       (\<lparr>nrows = 0, cols = []\<rparr>, [StError [Lit ''Error cargando datos: '', Lit m]]))
               \<and> (\<forall>ts. to_datetime (parse w) src = Inr ts \<longrightarrow>
                     (\<exists>df. load_data w = (df, []) \<and> getitem df ''FechaHora'' = Inr ts)))"
    using parsed [of "''Timestamp''"] resolve_timestamp_Timestamp [of rs w]
    by (simp add: columns_DataFrame)
  have 3: "''FechaHora'' \<notin> set (columns (DataFrame rs)) \<and> ''Timestamp'' \<notin> set (columns (DataFrame rs)) \<longrightarrow>
            (\<exists>df. load_data w = (df, [])
               \<and> getitem df ''FechaHora'' =
                   Inr (map (\<lambda>i. Ts (now w - 86400000000000 + 10000000000 * int i)) [0..<length rs]))"
    by (simp add: columns_DataFrame load_data_def lt resolve_timestamp_synthetic
        getitem_setitem_same date_range_def timedelta_days_def freq_10S_def mult.commute)
  from 1 2 3 show ?thesis by blast
qed

text \<open>
  The theorem at three sheets of one row: with both keys \<^verbatim>\<open>FechaHora\<close> is parsed, with
  \<^verbatim>\<open>Timestamp\<close> alone \<^verbatim>\<open>Timestamp\<close> is parsed, and with neither the timestamp is
  synthesized, one day before the fetch time.
\<close>

theorem timestamp_priority_witness:
  "(\<exists>df. load_data (sheet_env [[(''Timestamp'', Str ''2024-01-01 10:00:10''),
                                  (''FechaHora'', Str ''2024-01-01 10:00:00'')]] 0) = (df, [])
        \<and> getitem df ''FechaHora'' = Inr [Ts 1704103200000000000])
   \<and> (\<exists>df. load_data (sheet_env [[(''Timestamp'', Str ''2024-01-01 10:00:10''),
                                    (''Voltaje'', Float (33 / 10))]] 0) = (df, [])
        \<and> getitem df ''FechaHora'' = Inr [Ts 1704103210000000000])
   \<and> (\<exists>df. load_data (sheet_env [[(''Voltaje'', Float (33 / 10))]] 86400000000000) = (df, [])
        \<and> getitem df ''FechaHora'' = Inr [Ts 0])"
proof -
  let ?r1 = "[[(''Timestamp'', Str ''2024-01-01 10:00:10''), (''FechaHora'', Str ''2024-01-01 10:00:00'')]]"
  let ?r2 = "[[(''Timestamp'', Str ''2024-01-01 10:00:10''), (''Voltaje'', Float (33 / 10))]]"
  let ?r3 = "[[(''Voltaje'', Float (33 / 10))]]"
  have 1: "\<exists>df. load_data (sheet_env ?r1 0) = (df, [])
        \<and> getitem df ''FechaHora'' = Inr [Ts 1704103200000000000]"
    using timestamp_priority [of "sheet_env ?r1 0" ?r1]
    by (simp add: sheet_env_def frame_defs to_datetime_def to_datetime_cell_def nat_strings_def
        demo_parse_def)
  have 2: "\<exists>df. load_data (sheet_env ?r2 0) = (df, [])
        \<and> getitem df ''FechaHora'' = Inr [Ts 1704103210000000000]"
    using timestamp_priority [of "sheet_env ?r2 0" ?r2]
    by (simp add: sheet_env_def frame_defs to_datetime_def to_datetime_cell_def nat_strings_def
        demo_parse_def)
  have 3: "\<exists>df. load_data (sheet_env ?r3 86400000000000) = (df, [])
        \<and> getitem df ''FechaHora'' = Inr [Ts 0]"
    using timestamp_priority [of "sheet_env ?r3 86400000000000" ?r3]
    by (simp add: sheet_env_def frame_defs)
  from 1 2 3 show ?thesis by blast
qed

text \<open>
  C5, as amended. A text in a sensor column (any column but \<^verbatim>\<open>FechaHora\<close> and
  \<^verbatim>\<open>Timestamp\<close>) is kept as that text by the loader: it does not become a missing
  value, and the loader does not fail because of it, since only the calls to the sheet
  and the parsing of the timestamp column can fail. The metrics raise on it: the average
  voltage when the column \<^verbatim>\<open>Voltaje\<close> holds a text anywhere, the current temperature
  and the current humidity when the last value of their column is a text.
\<close>

theorem text_cells_kept_and_metrics_raise:
  assumes "from_service_account_file w ''credentials.json'' SCOPES = Inr ()"
    and "authorize w () = Inr ()"
    and "open_by_key_sheet1 w () SPREADSHEET_ID = Inr ()"
    and "get_all_records w () = Inr rs"
    and "i < length rs" and "map_of (rs ! i) k = Some (Str s)"
    and "k \<noteq> ''FechaHora''" and "k \<noteq> ''Timestamp''"
  shows "(\<forall>e. load_try w = Inl e \<longrightarrow>
            (\<exists>c src. (c = ''FechaHora'' \<or> c = ''Timestamp'')
               \<and> getitem (DataFrame rs) c = Inr src \<and> to_datetime (parse w) src = Inl e))
     \<and> (\<forall>df. load_try w = Inr df \<longrightarrow>
            (\<exists>xs. getitem df k = Inr xs \<and> length xs = length rs \<and> xs ! i = Str s)
          \<and> (k = ''Voltaje'' \<longrightarrow> (\<exists>e. metric_voltaje df = ([], Some e)))
          \<and> (k = ''Temperatura'' \<longrightarrow> i = length rs - 1 \<longrightarrow> (\<exists>e. metric_temperatura df = ([], Some e)))
          \<and> (k = ''Humedad'' \<longrightarrow> i = length rs - 1 \<longrightarrow> (\<exists>e. metric_humedad df = ([], Some e))))"
proof -
  note lt = load_try_ok [OF assms(1-4)]
  have 1: "\<forall>e. load_try w = Inl e \<longrightarrow>
            (\<exists>c src. (c = ''FechaHora'' \<or> c = ''Timestamp'')
               \<and> getitem (DataFrame rs) c = Inr src \<and> to_datetime (parse w) src = Inl e)"
    using resolve_timestamp_Inl [of w rs] by (simp add: lt)
  have key: "k \<in> set (keys_in_order rs)"
    using assms(5,6) by (force simp: set_keys_in_order dest: map_of_SomeD)
  have cell: "cell_of (rs ! i) k = Str s"
    using assms(6) by (simp add: cell_of_def)
  have 2: "(\<exists>xs. getitem df k = Inr xs \<and> length xs = length rs \<and> xs ! i = Str s)
          \<and> (k = ''Voltaje'' \<longrightarrow> (\<exists>e. metric_voltaje df = ([], Some e)))
          \<and> (k = ''Temperatura'' \<longrightarrow> i = length rs - 1 \<longrightarrow> (\<exists>e. metric_temperatura df = ([], Some e)))
          \<and> (k = ''Humedad'' \<longrightarrow> i = length rs - 1 \<longrightarrow> (\<exists>e. metric_humedad df = ([], Some e)))"
    if ok: "load_try w = Inr df" for df
  proof -
    let ?xs = "map (\<lambda>r. cell_of r k) rs"
    from ok have "resolve_timestamp w (DataFrame rs) = Inr df" by (simp add: lt)
    then obtain ts where df: "df = setitem (DataFrame rs) ''FechaHora'' ts"
      using resolve_timestamp_Inr by blast
    have at: "?xs ! i = Str s"
      using assms(5) cell by simp
    have mem: "Str s \<in> set ?xs"
      using assms(5) at by (metis length_map nth_mem)
    have same: "infer_column ?xs = ?xs"
      using mem by (rule infer_column_text)
    have g: "getitem df k = Inr ?xs"
      using key assms(7) by (simp add: df getitem_setitem_other getitem_DataFrame same)
    have c: "k \<in> set (columns df)"
      using g by (rule getitem_in_columns)
    have ne: "?xs \<noteq> []"
      using assms(5) by auto
    have la: "i = length rs - 1 \<Longrightarrow> last ?xs = Str s"
      using at ne by (simp add: last_conv_nth)
    have v: "k = ''Voltaje'' \<longrightarrow> (\<exists>e. metric_voltaje df = ([], Some e))"
      using g c mean_text [OF mem]
      by (auto simp: metric_voltaje_def and_then_def of_result_def)
    have t: "k = ''Temperatura'' \<longrightarrow> i = length rs - 1 \<longrightarrow> (\<exists>e. metric_temperatura df = ([], Some e))"
      using g c la ne
      by (auto simp: metric_temperatura_def and_then_def of_result_def iloc_last_def)
    have h: "k = ''Humedad'' \<longrightarrow> i = length rs - 1 \<longrightarrow> (\<exists>e. metric_humedad df = ([], Some e))"
      using g c la ne
      by (auto simp: metric_humedad_def and_then_def of_result_def iloc_last_def)
    from g at v t h show ?thesis by simp
  qed
  from 1 2 show ?thesis by blast
qed

theorem text_cells_witness:
  "load_try (sheet_env [[(''Voltaje'', Float (33 / 10))], [(''Voltaje'', Str ''abc'')]] 0)
     = Inr \<lparr>nrows = 2,
            cols = [(''Voltaje'', [Float (33 / 10), Str ''abc'']),
                    (''FechaHora'', [Ts (- 86400000000000), Ts (- 86390000000000)])]\<rparr>
   \<and> (\<exists>xs. getitem \<lparr>nrows = 2,
            cols = [(''Voltaje'', [Float (33 / 10), Str ''abc'']),
                    (''FechaHora'', [Ts (- 86400000000000), Ts (- 86390000000000)])]\<rparr> ''Voltaje''
           = Inr xs \<and> xs ! 1 = Str ''abc'')
   \<and> (\<exists>e. metric_voltaje \<lparr>nrows = 2,
            cols = [(''Voltaje'', [Float (33 / 10), Str ''abc'']),
                    (''FechaHora'', [Ts (- 86400000000000), Ts (- 86390000000000)])]\<rparr>
           = ([], Some e))"
proof -
  let ?rs = "[[(''Voltaje'', Float (33 / 10))], [(''Voltaje'', Str ''abc'')]]"
  let ?E = "sheet_env ?rs 0"
  let ?D = "\<lparr>nrows = 2,
            cols = [(''Voltaje'', [Float (33 / 10), Str ''abc'']),
                    (''FechaHora'', [Ts (- 86400000000000), Ts (- 86390000000000)])]\<rparr>"
  have h: "load_try ?E = Inr ?D"
    by (simp add: loader_defs frame_defs sheet_env_def upt_rec)
  have "(\<exists>xs. getitem ?D ''Voltaje'' = Inr xs \<and> length xs = length ?rs \<and> xs ! 1 = Str ''abc'')
      \<and> (\<exists>e. metric_voltaje ?D = ([], Some e))"
    using text_cells_kept_and_metrics_raise [of ?E ?rs 1 "''Voltaje''" "''abc''"] h
    by (simp add: sheet_env_def)
  with h show ?thesis by blast
qed

text \<open>
  The claim as it was stated fails on a sheet whose second \<^verbatim>\<open>Voltaje\<close> cell is the
  text \<^verbatim>\<open>abc\<close>: the frame keeps the text, it is no missing value, and the page stops
  with a \<^verbatim>\<open>TypeError\<close> at the average voltage.
\<close>

theorem text_cell_makes_mean_raise:
  "fst (load_data (sheet_env [[(''Voltaje'', Float (33 / 10))], [(''Voltaje'', Str ''abc'')]] 0))
     = \<lparr>nrows = 2,
        cols = [(''Voltaje'', [Float (33 / 10), Str ''abc'']),
                (''FechaHora'', [Ts (- 86400000000000), Ts (- 86390000000000)])]\<rparr>
   \<and> script (sheet_env [[(''Voltaje'', Float (33 / 10))], [(''Voltaje'', Str ''abc'')]] 0)
        (\<lambda>options dflt. dflt)
     = ([StSuccess [Lit ''Datos cargados correctamente: '', Dec 2, Lit '' registros''],
         StMetric ''Total Registros'' [Dec 2]],
        Some (Exception ''TypeError: could not convert to numeric''))"
  by (simp add: script_def loader_defs frame_defs sheet_env_def presenter_def df_empty_def
      then_render_def shown_def metrics_def metric_total_def metric_voltaje_def
      of_result_def mean_def upt_rec)

text \<open>
  C6. On an empty frame the page is the fallback view and nothing else: the error text
  and the expander with the one fixed example frame; no chart is drawn. On a frame that
  is not empty neither the error text nor that expander is shown.
\<close>

theorem fallback_iff_empty:
  "(df_empty df \<longrightarrow>
      presenter pick df =
        ([StError [Lit ''No se pudieron cargar los datos''],
          StExpander ''Solucion de problemas'' True [StDataframe ejemplo_data]], None)
      \<and> (\<forall>t. StPlotlyChart t \<notin> set (fst (presenter pick df))))
   \<and> (\<not> df_empty df \<longrightarrow>
      (\<forall>t. StError t \<notin> set (fst (presenter pick df)))
      \<and> (\<forall>b es. StExpander ''Solucion de problemas'' b es \<notin> set (fst (presenter pick df))))"
proof (cases "df_empty df")
  case True
  then show ?thesis by (simp add: presenter_def shown_def fallback_def)
next
  case False
  then show ?thesis using presenter_nonempty_elements [of df _ pick] by blast
qed

theorem fallback_iff_empty_witness:
  "df_empty \<lparr>nrows = 0, cols = []\<rparr>
   \<and> presenter (\<lambda>options dflt. dflt) \<lparr>nrows = 0, cols = []\<rparr> =
        ([StError [Lit ''No se pudieron cargar los datos''],
          StExpander ''Solucion de problemas'' True [StDataframe ejemplo_data]], None)
   \<and> \<not> df_empty \<lparr>nrows = 1, cols = [(''Voltaje'', [Integer 3])]\<rparr>
   \<and> StError [Lit ''No se pudieron cargar los datos'']
        \<notin> set (fst (presenter (\<lambda>options dflt. dflt) \<lparr>nrows = 1, cols = [(''Voltaje'', [Integer 3])]\<rparr>))"
  using fallback_iff_empty [of "\<lparr>nrows = 0, cols = []\<rparr>" "\<lambda>options dflt. dflt"]
    fallback_iff_empty [of "\<lparr>nrows = 1, cols = [(''Voltaje'', [Integer 3])]\<rparr>" "\<lambda>options dflt. dflt"]
  by (simp add: df_empty_def)

text \<open>
  C7. When the column \<^verbatim>\<open>Voltaje\<close> is numeric, the average-voltage metric shows, with
  two decimals, the arithmetic mean of its numbers: their sum divided by their count
  (\<^verbatim>\<open>Series.mean\<close> skips missing values). On a frame that is not empty the metric is
  on the page. For the column 3.3, 3.2 the mean is 3.25, as the witness shows.
\<close>

theorem voltaje_metric_is_mean:
  assumes "getitem df ''Voltaje'' = Inr xs" and "list_all is_number xs" and "numbers xs \<noteq> []"
  shows "metric_voltaje df =
      ([StMetric ''Voltaje Promedio''
          [Fixed 2 (sum_list (numbers xs) / of_nat (length (numbers xs))), Lit '' V'']], None)
    \<and> (\<not> df_empty df \<longrightarrow>
         StMetric ''Voltaje Promedio''
           [Fixed 2 (sum_list (numbers xs) / of_nat (length (numbers xs))), Lit '' V'']
         \<in> set (fst (presenter pick df)))"
proof -
  have c: "''Voltaje'' \<in> set (columns df)"
    using assms(1) by (rule getitem_in_columns)
  have m: "metric_voltaje df =
      ([StMetric ''Voltaje Promedio''
          [Fixed 2 (sum_list (numbers xs) / of_nat (length (numbers xs))), Lit '' V'']], None)"
    using assms c by (simp add: metric_voltaje_def and_then_def mean_def of_result_def)
  then show ?thesis
    using voltaje_in_page [of df _ pick] by simp
qed

theorem voltaje_metric_example:
  "getitem \<lparr>nrows = 2, cols = [(''Voltaje'', [Float (33 / 10), Float (32 / 10)])]\<rparr> ''Voltaje''
     = Inr [Float (33 / 10), Float (32 / 10)]
   \<and> metric_voltaje \<lparr>nrows = 2, cols = [(''Voltaje'', [Float (33 / 10), Float (32 / 10)])]\<rparr>
     = ([StMetric ''Voltaje Promedio'' [Fixed 2 (325 / 100), Lit '' V'']], None)"
  using voltaje_metric_is_mean
    [of "\<lparr>nrows = 2, cols = [(''Voltaje'', [Float (33 / 10), Float (32 / 10)])]\<rparr>"
        "[Float (33 / 10), Float (32 / 10)]"]
  by (simp add: getitem_def)



text \<open>
  C9, as amended. When the sheet is reached and has no data row, \<open>load_data\<close> returns a
  frame without rows whose only column is \<^verbatim>\<open>FechaHora\<close>, and shows no message. The
  frame is empty, so the page is the fallback view, the same view as after any failure
  of the loader.
\<close>

theorem empty_sheet_shows_fallback:
  assumes "from_service_account_file w ''credentials.json'' SCOPES = Inr ()"
    and "authorize w () = Inr ()"
    and "open_by_key_sheet1 w () SPREADSHEET_ID = Inr ()"
    and "get_all_records w () = Inr []"
  shows "load_data w = (\<lparr>nrows = 0, cols = [(''FechaHora'', [])]\<rparr>, [])
     \<and> df_empty (fst (load_data w))
     \<and> presenter pick (fst (load_data w)) =
         ([StError [Lit ''No se pudieron cargar los datos''],
           StExpander ''Solucion de problemas'' True [StDataframe ejemplo_data]], None)
     \<and> (\<forall>v e. load_try v = Inl e \<longrightarrow>
           presenter pick (fst (load_data v)) = presenter pick (fst (load_data w)))"
proof -
  have "load_try w = Inr \<lparr>nrows = 0, cols = [(''FechaHora'', [])]\<rparr>"
    by (simp add: load_try_ok [OF assms] resolve_timestamp_def DataFrame_def keys_in_order_def
        columns_def setitem_def date_range_def len_def)
  then have 1: "load_data w = (\<lparr>nrows = 0, cols = [(''FechaHora'', [])]\<rparr>, [])"
    by (simp add: load_data_def)
  have 2: "presenter pick df = (fallback, None)" if "df_empty df" for df
    using that by (simp add: presenter_def shown_def)
  have 3: "df_empty (fst (load_data v))" if "load_try v = Inl e" for v e
    using that by (cases e) (simp add: load_data_def empty_frame_def df_empty_def)
  have 4: "df_empty (fst (load_data w))"
    by (simp add: 1 df_empty_def)
  show ?thesis
    using 1 2 3 4 by (auto simp: fallback_def)
qed

theorem empty_sheet_witness:
  "load_data (sheet_env [] 0) = (\<lparr>nrows = 0, cols = [(''FechaHora'', [])]\<rparr>, [])
   \<and> load_try offline_env = Inl (Exception ''Connection aborted'')
   \<and> presenter (\<lambda>options dflt. dflt) (fst (load_data offline_env))
     = presenter (\<lambda>options dflt. dflt) (fst (load_data (sheet_env [] 0)))"
proof -
  have f: "load_try offline_env = Inl (Exception ''Connection aborted'')"
    by (simp add: load_try_def and_then_def offline_env_def)
  show ?thesis
    using empty_sheet_shows_fallback [of "sheet_env [] 0" "\<lambda>options dflt. dflt"] f
    by (simp add: sheet_env_def)
qed

text \<open>
  The claim as it was stated fails: the loader's results on an empty sheet and on a
  sheet that cannot be reached differ in the frame (one column against none) and in
  the message (none against one), and so do the two pages.
\<close>

theorem empty_sheet_differs_from_failure:
  "fst (load_data (sheet_env [] 0)) \<noteq> fst (load_data offline_env)
   \<and> snd (load_data (sheet_env [] 0)) \<noteq> snd (load_data offline_env)
   \<and> script (sheet_env [] 0) (\<lambda>options dflt. dflt) \<noteq> script offline_env (\<lambda>options dflt. dflt)"
  by (simp add: script_def load_data_def load_try_def and_then_def sheet_env_def offline_env_def
      resolve_timestamp_def DataFrame_def keys_in_order_def columns_def setitem_def
      date_range_def len_def empty_frame_def presenter_def df_empty_def shown_def
      then_render_def fallback_def)




end
